theory Spec2Isabelle
  imports Complex_Main
begin

section \<open>JavaScript values and errors\<close>

text \<open>
  The values that the wrapper classes receive, forward and return: \<open>undefined\<close>,
  \<open>null\<close>, booleans, numbers (as reals) and strings. Function values are not among
  them, so no value of this type is callable.
\<close>

datatype jsval = JUndefined | JNull | JBool bool | JNum real | JStr string

text \<open>
  A thrown exception is a value: \<open>TypeError\<close> is what JavaScript itself raises when a
  property of \<open>undefined\<close> is read or a non-function is called; \<open>RangeError\<close> and
  \<open>EngineError\<close> are what a call into Tone.js throws.
\<close>

datatype error = TypeError | RangeError | EngineError string

section \<open>The audio engine\<close>

text \<open>
  Tone.js is imported by every source file and is not part of the sources. Its nodes are
  modelled by the properties the wrapper classes read and write, next to an engine-owned
  state \<open>'e\<close> (transport state and position, graph edges), and its methods are the fields
  of the record \<open>Tone\<close>: a parameter of every wrapper operation that calls into the
  engine. A method call on a node returns the changed node or the exception it throws;
  it changes nothing of the wrapper object that holds the node. Where an operation
  raises, its result is the exception alone: the state left behind is not modelled.

  The properties \<open>playbackRate\<close>, \<open>loopStart\<close>, \<open>loopEnd\<close> of a player and \<open>type\<close> of
  a noise source are accessors of the engine. A write to one of them is a call of the
  engine's setter, which sees the value and the node: it raises, or it returns the
  engine-owned state of the node, and the property then reads back the value written.
\<close>

record AudioBuffer =
  duration :: real
  sampleRate :: real
  buffer_length :: nat
  numberOfChannels :: nat

text \<open>
  Modelled on Tone.js: a player's \<open>buffer\<close> is a \<open>ToneAudioBuffer\<close> object from the
  moment the player is constructed. It wraps the decoded audio once that has arrived.
  Until then its \<open>duration\<close>, \<open>length\<close> and \<open>numberOfChannels\<close> read 0, its
  \<open>sampleRate\<close> reads the sample rate of the audio context, and \<open>loaded\<close> is false.
\<close>

record ToneAudioBuffer =
  decoded :: "AudioBuffer option"
  context_sampleRate :: real

definition ToneAudioBuffer_duration :: "ToneAudioBuffer \<Rightarrow> real" where
  "ToneAudioBuffer_duration b = (case decoded b of None \<Rightarrow> 0 | Some a \<Rightarrow> duration a)"

definition ToneAudioBuffer_length :: "ToneAudioBuffer \<Rightarrow> nat" where
  "ToneAudioBuffer_length b = (case decoded b of None \<Rightarrow> 0 | Some a \<Rightarrow> buffer_length a)"

definition ToneAudioBuffer_numberOfChannels :: "ToneAudioBuffer \<Rightarrow> nat" where
  "ToneAudioBuffer_numberOfChannels b =
     (case decoded b of None \<Rightarrow> 0 | Some a \<Rightarrow> numberOfChannels a)"

definition ToneAudioBuffer_sampleRate :: "ToneAudioBuffer \<Rightarrow> real" where
  "ToneAudioBuffer_sampleRate b =
     (case decoded b of None \<Rightarrow> context_sampleRate b | Some a \<Rightarrow> sampleRate a)"

definition ToneAudioBuffer_loaded :: "ToneAudioBuffer \<Rightarrow> bool" where
  "ToneAudioBuffer_loaded b = (0 < ToneAudioBuffer_length b)"

record 'e Tone_Node =
  internal :: 'e

record 'e Tone_Player = "'e Tone_Node" +
  buffer :: "ToneAudioBuffer option"
  playbackRate :: real
  loop :: bool
  loopStart :: real
  loopEnd :: real
  volume :: jsval

record 'e Tone_Noise = "'e Tone_Node" +
  type :: jsval

text \<open>
  The argument of the engine's \<open>connect\<close> and \<open>disconnect\<close>: the node another wrapper
  object returns from \<open>getNode()\<close>, or the value of the expression
  \<open>Tone.Context.destination\<close>.
\<close>

datatype 'e dest = Context_destination | Node 'e

record 'e Tone =
  tone_Player :: "jsval \<Rightarrow> error + 'e Tone_Player"
  tone_Player_start :: "'e Tone_Player \<Rightarrow> error + 'e Tone_Player"
  tone_Player_stop :: "'e Tone_Player \<Rightarrow> error + 'e Tone_Player"
  tone_playbackRate_set :: "real \<Rightarrow> 'e Tone_Player \<Rightarrow> error + 'e"
  tone_loopStart_set :: "real \<Rightarrow> 'e Tone_Player \<Rightarrow> error + 'e"
  tone_loopEnd_set :: "real \<Rightarrow> 'e Tone_Player \<Rightarrow> error + 'e"
  tone_Noise :: "error + 'e Tone_Noise"
  tone_Noise_start :: "'e Tone_Noise \<Rightarrow> error + 'e Tone_Noise"
  tone_Noise_stop :: "'e Tone_Noise \<Rightarrow> error + 'e Tone_Noise"
  tone_type_set :: "jsval \<Rightarrow> 'e Tone_Noise \<Rightarrow> error + 'e"
  tone_FFT :: "jsval \<Rightarrow> bool \<Rightarrow> error + 'e"
  tone_FFT_getValue :: "'e \<Rightarrow> error + real list"
  tone_Waveform :: "error + 'e"
  tone_Gain :: "real \<Rightarrow> error + 'e"
  tone_toDestination :: "'e \<Rightarrow> error + 'e"
  tone_connect :: "'e \<Rightarrow> 'e dest \<Rightarrow> error + 'e"
  tone_disconnect :: "'e \<Rightarrow> 'e dest \<Rightarrow> error + 'e"

text \<open>The four accessor writes: \<open>node.property = v\<close>.\<close>

definition Player_set_playbackRate :: "'e Tone \<Rightarrow> real \<Rightarrow> 'e Tone_Player \<Rightarrow> error + 'e Tone_Player" where
  "Player_set_playbackRate E v p =
     (case tone_playbackRate_set E v p of
        Inl e \<Rightarrow> Inl e
      | Inr s \<Rightarrow> Inr (p\<lparr>internal := s, playbackRate := v\<rparr>))"

definition Player_set_loopStart :: "'e Tone \<Rightarrow> real \<Rightarrow> 'e Tone_Player \<Rightarrow> error + 'e Tone_Player" where
  "Player_set_loopStart E v p =
     (case tone_loopStart_set E v p of
        Inl e \<Rightarrow> Inl e
      | Inr s \<Rightarrow> Inr (p\<lparr>internal := s, loopStart := v\<rparr>))"

definition Player_set_loopEnd :: "'e Tone \<Rightarrow> real \<Rightarrow> 'e Tone_Player \<Rightarrow> error + 'e Tone_Player" where
  "Player_set_loopEnd E v p =
     (case tone_loopEnd_set E v p of
        Inl e \<Rightarrow> Inl e
      | Inr s \<Rightarrow> Inr (p\<lparr>internal := s, loopEnd := v\<rparr>))"

definition Noise_set_type :: "'e Tone \<Rightarrow> jsval \<Rightarrow> 'e Tone_Noise \<Rightarrow> error + 'e Tone_Noise" where
  "Noise_set_type E v n =
     (case tone_type_set E v n of
        Inl e \<Rightarrow> Inl e
      | Inr s \<Rightarrow> Inr (n\<lparr>internal := s, type := v\<rparr>))"

section \<open>SoundFile\<close>

record 'e SoundFile =
  soundfile :: "'e Tone_Player"
  playing :: bool
  rate :: real

text \<open>
  \<open>new SoundFile(buffer, successCallback)\<close>. The callback is handed to the engine,
  which calls it when decoding ends; it is not modelled.
\<close>

definition SoundFile_constructor :: "'e Tone \<Rightarrow> jsval \<Rightarrow> error + 'e SoundFile" where
  "SoundFile_constructor E path =
     (case tone_Player E path of
        Inl e \<Rightarrow> Inl e
      | Inr p \<Rightarrow>
          (case tone_toDestination E (internal p) of
             Inl e \<Rightarrow> Inl e
           | Inr s \<Rightarrow> Inr \<lparr>soundfile = p\<lparr>internal := s\<rparr>, playing = False, rate = 1\<rparr>))"

definition SoundFile_start :: "'e Tone \<Rightarrow> 'e SoundFile \<Rightarrow> error + 'e SoundFile" where
  "SoundFile_start E sf =
     (case Player_set_playbackRate E (rate sf) (soundfile sf) of
        Inl e \<Rightarrow> Inl e
      | Inr p0 \<Rightarrow>
          (case tone_Player_start E p0 of
             Inl e \<Rightarrow> Inl e
           | Inr p \<Rightarrow> Inr (sf\<lparr>soundfile := p, playing := True\<rparr>)))"

text \<open>
  \<open>play()\<close> also writes the stored rate to the console, after the write to
  \<open>playbackRate\<close> and before it calls the engine, so its result is the console output
  paired with what \<open>start()\<close> would return.
\<close>

definition SoundFile_play :: "'e Tone \<Rightarrow> 'e SoundFile \<Rightarrow> jsval list \<times> (error + 'e SoundFile)" where
  "SoundFile_play E sf =
     (case Player_set_playbackRate E (rate sf) (soundfile sf) of
        Inl e \<Rightarrow> ([], Inl e)
      | Inr p0 \<Rightarrow>
          ([JNum (rate sf)],
           (case tone_Player_start E p0 of
              Inl e \<Rightarrow> Inl e
            | Inr p \<Rightarrow> Inr (sf\<lparr>soundfile := p, playing := True\<rparr>))))"

definition SoundFile_stop :: "'e Tone \<Rightarrow> 'e SoundFile \<Rightarrow> error + 'e SoundFile" where
  "SoundFile_stop E sf =
     (case tone_Player_stop E (soundfile sf) of
        Inl e \<Rightarrow> Inl e
      | Inr p \<Rightarrow> Inr (sf\<lparr>soundfile := p\<rparr>))"

definition SoundFile_pause :: "'e Tone \<Rightarrow> 'e SoundFile \<Rightarrow> error + 'e SoundFile" where
  "SoundFile_pause E sf =
     (case Player_set_playbackRate E 0 (soundfile sf) of
        Inl e \<Rightarrow> Inl e
      | Inr p \<Rightarrow> Inr (sf\<lparr>soundfile := p, playing := False\<rparr>))"


text \<open>
  \<open>amp(value)\<close> writes \<open>Tone.gainToDb(value)\<close> to \<open>volume.value\<close>. The conversion is
  the engine's function, taken as the parameter \<open>gainToDb\<close>.
\<close>

definition SoundFile_amp :: "(jsval \<Rightarrow> error + jsval) \<Rightarrow> jsval \<Rightarrow> 'e SoundFile \<Rightarrow> error + 'e SoundFile" where
  "SoundFile_amp gainToDb v sf =
     (case gainToDb v of
        Inl e \<Rightarrow> Inl e
      | Inr dbValue \<Rightarrow> Inr (sf\<lparr>soundfile := (soundfile sf)\<lparr>volume := dbValue\<rparr>\<rparr>))"

text \<open>
  The prototype method \<open>rate(value)\<close>. The constructor's \<open>this.rate = 1\<close> gives every
  instance an own property of the same name.
\<close>

definition SoundFile_rate :: "'e Tone \<Rightarrow> real \<Rightarrow> 'e SoundFile \<Rightarrow> error + 'e SoundFile" where
  "SoundFile_rate E v sf =
     (case Player_set_playbackRate E v (soundfile sf) of
        Inl e \<Rightarrow> Inl e
      | Inr p \<Rightarrow> Inr (sf\<lparr>soundfile := p, rate := v\<rparr>))"

text \<open>
  The buffer queries. The value of \<open>this.soundfile.buffer\<close> is \<open>None\<close> when it is
  \<open>undefined\<close> and \<open>Some\<close> of the buffer object otherwise, and an object is truthy.
  Reading a property of \<open>undefined\<close> raises a \<open>TypeError\<close>, and a method that falls off
  its end returns \<open>undefined\<close>. \<open>sampleRate()\<close> is defined twice in the class, with the
  same body.
\<close>

definition SoundFile_duration :: "'e SoundFile \<Rightarrow> error + jsval" where
  "SoundFile_duration sf =
     (case buffer (soundfile sf) of
        None \<Rightarrow> Inl TypeError
      | Some b \<Rightarrow> Inr (JNum (ToneAudioBuffer_duration b)))"

definition SoundFile_sampleRate :: "'e SoundFile \<Rightarrow> error + jsval" where
  "SoundFile_sampleRate sf =
     (case buffer (soundfile sf) of
        Some b \<Rightarrow> Inr (JNum (ToneAudioBuffer_sampleRate b))
      | None \<Rightarrow> Inr JUndefined)"

definition SoundFile_frames :: "'e SoundFile \<Rightarrow> error + jsval" where
  "SoundFile_frames sf =
     (case buffer (soundfile sf) of
        Some b \<Rightarrow> Inr (JNum (real (ToneAudioBuffer_length b)))
      | None \<Rightarrow> Inr JUndefined)"

definition SoundFile_channels :: "'e SoundFile \<Rightarrow> error + jsval" where
  "SoundFile_channels sf =
     (case buffer (soundfile sf) of
        Some b \<Rightarrow> Inr (JNum (real (ToneAudioBuffer_numberOfChannels b)))
      | None \<Rightarrow> Inr JUndefined)"

definition SoundFile_isPlaying :: "'e SoundFile \<Rightarrow> bool" where
  "SoundFile_isPlaying sf = playing sf"

definition SoundFile_getNode :: "'e SoundFile \<Rightarrow> 'e" where
  "SoundFile_getNode sf = internal (soundfile sf)"

definition SoundFile_connect :: "'e Tone \<Rightarrow> 'e \<Rightarrow> 'e SoundFile \<Rightarrow> error + 'e SoundFile" where
  "SoundFile_connect E destination sf =
     (case tone_connect E (internal (soundfile sf)) (Node destination) of
        Inl e \<Rightarrow> Inl e
      | Inr s \<Rightarrow> Inr (sf\<lparr>soundfile := (soundfile sf)\<lparr>internal := s\<rparr>\<rparr>))"

definition SoundFile_disconnect :: "'e Tone \<Rightarrow> 'e SoundFile \<Rightarrow> error + 'e SoundFile" where
  "SoundFile_disconnect E sf =
     (case tone_disconnect E (internal (soundfile sf)) Context_destination of
        Inl e \<Rightarrow> Inl e
      | Inr s \<Rightarrow> Inr (sf\<lparr>soundfile := (soundfile sf)\<lparr>internal := s\<rparr>\<rparr>))"

section \<open>Noise\<close>

record 'e Noise =
  noise :: "'e Tone_Noise"

definition Noise_constructor :: "'e Tone \<Rightarrow> jsval \<Rightarrow> error + 'e Noise" where
  "Noise_constructor E t =
     (let t' = (if t = JUndefined then JStr ''white'' else t) in
      case tone_Noise E of
        Inl e \<Rightarrow> Inl e
      | Inr n \<Rightarrow>
          (case tone_toDestination E (internal n) of
             Inl e \<Rightarrow> Inl e
           | Inr s \<Rightarrow>
               (case Noise_set_type E t' (n\<lparr>internal := s\<rparr>) of
                  Inl e \<Rightarrow> Inl e
                | Inr n' \<Rightarrow> Inr \<lparr>noise = n'\<rparr>)))"

definition Noise_type :: "'e Tone \<Rightarrow> jsval \<Rightarrow> 'e Noise \<Rightarrow> error + 'e Noise" where
  "Noise_type E t n =
     (case Noise_set_type E t (noise n) of
        Inl e \<Rightarrow> Inl e
      | Inr n' \<Rightarrow> Inr (n\<lparr>noise := n'\<rparr>))"

definition Noise_getNode :: "'e Noise \<Rightarrow> 'e" where
  "Noise_getNode n = internal (noise n)"

definition Noise_connect :: "'e Tone \<Rightarrow> 'e \<Rightarrow> 'e Noise \<Rightarrow> error + 'e Noise" where
  "Noise_connect E destination n =
     (case tone_connect E (internal (noise n)) (Node destination) of
        Inl e \<Rightarrow> Inl e
      | Inr s \<Rightarrow> Inr (n\<lparr>noise := (noise n)\<lparr>internal := s\<rparr>\<rparr>))"

definition Noise_disconnect :: "'e Tone \<Rightarrow> 'e Noise \<Rightarrow> error + 'e Noise" where
  "Noise_disconnect E n =
     (case tone_disconnect E (internal (noise n)) Context_destination of
        Inl e \<Rightarrow> Inl e
      | Inr s \<Rightarrow> Inr (n\<lparr>noise := (noise n)\<lparr>internal := s\<rparr>\<rparr>))"

definition Noise_start :: "'e Tone \<Rightarrow> 'e Noise \<Rightarrow> error + 'e Noise" where
  "Noise_start E n =
     (case tone_Noise_start E (noise n) of
        Inl e \<Rightarrow> Inl e
      | Inr x \<Rightarrow> Inr (n\<lparr>noise := x\<rparr>))"

definition Noise_stop :: "'e Tone \<Rightarrow> 'e Noise \<Rightarrow> error + 'e Noise" where
  "Noise_stop E n =
     (case tone_Noise_stop E (noise n) of
        Inl e \<Rightarrow> Inl e
      | Inr x \<Rightarrow> Inr (n\<lparr>noise := x\<rparr>))"

section \<open>FFT\<close>

record 'e FFT =
  fftSize :: jsval
  analyzer :: 'e
  waveform :: 'e
  gain :: 'e

definition FFT_constructor :: "'e Tone \<Rightarrow> jsval \<Rightarrow> error + 'e FFT" where
  "FFT_constructor E fftSize_arg =
     (let n = (if fftSize_arg = JUndefined then JNum 32 else fftSize_arg) in
      case tone_FFT E n True of
        Inl e \<Rightarrow> Inl e
      | Inr a \<Rightarrow>
      (case tone_Waveform E of
        Inl e \<Rightarrow> Inl e
      | Inr w \<Rightarrow>
      (case tone_Gain E 1 of
        Inl e \<Rightarrow> Inl e
      | Inr g \<Rightarrow>
      (case tone_connect E g (Node a) of
        Inl e \<Rightarrow> Inl e
      | Inr g1 \<Rightarrow>
      (case tone_connect E g1 (Node w) of
        Inl e \<Rightarrow> Inl e
      | Inr g2 \<Rightarrow> Inr \<lparr>fftSize = n, analyzer = a, waveform = w, gain = g2\<rparr>)))))"

text \<open>The three methods of the class body, as functions of the instance.\<close>

definition FFT_getNode :: "'e FFT \<Rightarrow> 'e" where
  "FFT_getNode f = gain f"

definition FFT_analyze :: "'e Tone \<Rightarrow> 'e FFT \<Rightarrow> error + real list" where
  "FFT_analyze E f = tone_FFT_getValue E (analyzer f)"

definition FFT_waveform :: "'e FFT \<Rightarrow> string list \<times> jsval" where
  "FFT_waveform f = ([''waveform''], JUndefined)"

text \<open>
  A call \<open>fft.name()\<close> first resolves \<open>name\<close> on the instance: its own properties (the
  four the constructor assigns) come before those of the prototype (the methods of the
  class body). The call then raises a \<open>TypeError\<close> unless what it found is a function.
  The constructor stores numbers and engine objects only.
\<close>

datatype FFT_method = M_getNode | M_analyze | M_waveform

datatype 'e property = Data jsval | Engine_object 'e | Method FFT_method

datatype 'e returned = Returns jsval | Returns_node 'e | Returns_values "real list"

definition FFT_own :: "'e FFT \<Rightarrow> (string \<times> 'e property) list" where
  "FFT_own f =
     [(''fftSize'', Data (fftSize f)),
      (''analyzer'', Engine_object (analyzer f)),
      (''waveform'', Engine_object (waveform f)),
      (''gain'', Engine_object (gain f))]"

definition FFT_prototype :: "(string \<times> 'e property) list" where
  "FFT_prototype =
     [(''getNode'', Method M_getNode),
      (''analyze'', Method M_analyze),
      (''waveform'', Method M_waveform)]"

definition FFT_get :: "'e FFT \<Rightarrow> string \<Rightarrow> 'e property option" where
  "FFT_get f name = map_of (FFT_own f @ FFT_prototype) name"

definition FFT_call :: "'e Tone \<Rightarrow> 'e FFT \<Rightarrow> string \<Rightarrow> string list \<times> (error + 'e returned)" where
  "FFT_call E f name =
     (case FFT_get f name of
        Some (Method M_getNode) \<Rightarrow> ([], Inr (Returns_node (FFT_getNode f)))
      | Some (Method M_analyze) \<Rightarrow>
          ([], (case FFT_analyze E f of Inl e \<Rightarrow> Inl e | Inr vs \<Rightarrow> Inr (Returns_values vs)))
      | Some (Method M_waveform) \<Rightarrow> (fst (FFT_waveform f), Inr (Returns (snd (FFT_waveform f))))
      | Some (Data v) \<Rightarrow> ([], Inl TypeError)
      | Some (Engine_object x) \<Rightarrow> ([], Inl TypeError)
      | None \<Rightarrow> ([], Inl TypeError))"

section \<open>An engine to evaluate on\<close>

text \<open>
  The theorems below hold for every engine. To run the definitions on concrete inputs,
  this engine is modelled on Tone.js as far as the wrapper's calls go. Per node it keeps
  whether the node is started, whether it feeds the final output, how many other nodes
  it feeds, and the playback position in seconds.
  \<^item> A new player holds a buffer object without decoded audio.
  \<^item> \<open>start()\<close> of a player raises unless the buffer is loaded. Called without an
    offset, as the wrapper does, it begins playback at \<open>loopStart\<close> when the player
    loops and at 0 otherwise, also when the player is started already (Tone 14 restarts
    it; later versions can raise instead when the two starts fall on the same instant).
  \<^item> A write to \<open>loopStart\<close> or \<open>loopEnd\<close> raises a \<open>RangeError\<close> when the buffer is
    loaded and the value is not between 0 and the buffer's duration.
  \<^item> A write to \<open>playbackRate\<close> is accepted for every number.
  \<^item> A write to \<open>type\<close> raises unless the value is one of the three noise colours.
  \<^item> Signal analysis is not part of it.
\<close>

record sim =
  started :: bool
  to_output :: bool
  fanout :: nat
  position :: real

definition idle :: sim where
  "idle = \<lparr>started = False, to_output = False, fanout = 0, position = 0\<rparr>"

definition empty_buffer :: ToneAudioBuffer where
  "empty_buffer = \<lparr>decoded = None, context_sampleRate = 44100\<rparr>"

definition sim_Player_start :: "sim Tone_Player \<Rightarrow> error + sim Tone_Player" where
  "sim_Player_start p =
     (case buffer p of
        None \<Rightarrow> Inl TypeError
      | Some b \<Rightarrow>
          if ToneAudioBuffer_loaded b
          then Inr (p\<lparr>internal := (internal p)\<lparr>started := True,
                                                position := (if loop p then loopStart p else 0)\<rparr>\<rparr>)
          else Inl (EngineError ''buffer is either not set or not loaded''))"

definition sim_loop_point_set :: "real \<Rightarrow> sim Tone_Player \<Rightarrow> error + sim" where
  "sim_loop_point_set v p =
     (case buffer p of
        None \<Rightarrow> Inl TypeError
      | Some b \<Rightarrow>
          if ToneAudioBuffer_loaded b
          then (if 0 \<le> v \<and> v \<le> ToneAudioBuffer_duration b then Inr (internal p)
                else Inl RangeError)
          else Inr (internal p))"

definition sim_type_set :: "jsval \<Rightarrow> sim Tone_Noise \<Rightarrow> error + sim" where
  "sim_type_set t n =
     (if t = JStr ''white'' then Inr (internal n)
      else if t = JStr ''pink'' then Inr (internal n)
      else if t = JStr ''brown'' then Inr (internal n)
      else Inl (EngineError ''Noise: invalid type''))"

definition sim_engine :: "sim Tone" where
  "sim_engine =
     \<lparr>tone_Player = (\<lambda>path. Inr \<lparr>internal = idle, buffer = Some empty_buffer, playbackRate = 1,
                                 loop = False, loopStart = 0, loopEnd = 0, volume = JNum 0\<rparr>),
      tone_Player_start = sim_Player_start,
      tone_Player_stop = (\<lambda>p. Inr (p\<lparr>internal := (internal p)\<lparr>started := False\<rparr>\<rparr>)),
      tone_playbackRate_set = (\<lambda>v p. Inr (internal p)),
      tone_loopStart_set = sim_loop_point_set,
      tone_loopEnd_set = sim_loop_point_set,
      tone_Noise = Inr \<lparr>internal = idle, type = JStr ''white''\<rparr>,
      tone_Noise_start = (\<lambda>n. Inr (n\<lparr>internal := (internal n)\<lparr>started := True\<rparr>\<rparr>)),
      tone_Noise_stop = (\<lambda>n. Inr (n\<lparr>internal := (internal n)\<lparr>started := False\<rparr>\<rparr>)),
      tone_type_set = sim_type_set,
      tone_FFT = (\<lambda>n normalRange. Inr idle),
      tone_FFT_getValue = (\<lambda>a. Inl (EngineError ''no signal analysis'')),
      tone_Waveform = Inr idle,
      tone_Gain = (\<lambda>g. Inr idle),
      tone_toDestination = (\<lambda>s. Inr (s\<lparr>to_output := True\<rparr>)),
      tone_connect = (\<lambda>s d. case d of
                            Context_destination \<Rightarrow> Inr (s\<lparr>to_output := True\<rparr>)
                          | Node x \<Rightarrow> Inr (s\<lparr>fanout := Suc (fanout s)\<rparr>)),
      tone_disconnect = (\<lambda>s d. case d of
                               Context_destination \<Rightarrow> Inr (s\<lparr>to_output := False\<rparr>)
                             | Node x \<Rightarrow> Inr (s\<lparr>fanout := fanout s - 1\<rparr>))\<rparr>"

text \<open>
  A sound file as its constructor leaves it, decoding not finished; eight seconds of
  decoded stereo audio; and the sound file once the audio has arrived.
\<close>

definition loading_sound :: "sim SoundFile" where
  "loading_sound =
     \<lparr>soundfile = \<lparr>internal = idle\<lparr>to_output := True\<rparr>, buffer = Some empty_buffer,
                   playbackRate = 1, loop = False, loopStart = 0, loopEnd = 0, volume = JNum 0\<rparr>,
      playing = False, rate = 1\<rparr>"

definition gong :: AudioBuffer where
  "gong = \<lparr>duration = 8, sampleRate = 44100, buffer_length = 352800, numberOfChannels = 2\<rparr>"

definition loaded_sound :: "sim SoundFile" where
  "loaded_sound =
     loading_sound\<lparr>soundfile := (soundfile loading_sound)\<lparr>buffer := Some (empty_buffer\<lparr>decoded := Some gong\<rparr>)\<rparr>\<rparr>"

text \<open>The same sound file after \<open>start()\<close>: the engine has started the player.\<close>

definition started_sound :: "sim SoundFile" where
  "started_sound =
     loaded_sound\<lparr>soundfile := (soundfile loaded_sound)\<lparr>internal := idle\<lparr>started := True, to_output := True\<rparr>\<rparr>,
                  playing := True\<rparr>"

text \<open>
  The sound file with the stored rate 2, three seconds into its playback; what
  \<open>pause()\<close> makes of it; and what \<open>start()\<close> makes of that.
\<close>

definition playing_sound :: "sim SoundFile" where
  "playing_sound =
     started_sound\<lparr>soundfile := (soundfile started_sound)\<lparr>internal := (internal (soundfile started_sound))\<lparr>position := 3\<rparr>,
                                                          playbackRate := 2\<rparr>,
                   rate := 2\<rparr>"

definition paused_sound :: "sim SoundFile" where
  "paused_sound = playing_sound\<lparr>soundfile := (soundfile playing_sound)\<lparr>playbackRate := 0\<rparr>, playing := False\<rparr>"

definition restarted_sound :: "sim SoundFile" where
  "restarted_sound =
     playing_sound\<lparr>soundfile := (soundfile playing_sound)\<lparr>internal := (internal (soundfile playing_sound))\<lparr>position := 0\<rparr>\<rparr>\<rparr>"

text \<open>What \<open>new FFT(32)\<close> and \<open>new Noise()\<close> are on this engine.\<close>

definition fft32 :: "sim FFT" where
  "fft32 = \<lparr>fftSize = JNum 32, analyzer = idle, waveform = idle, gain = idle\<lparr>fanout := 2\<rparr>\<rparr>"

definition white_noise :: "sim Noise" where
  "white_noise = \<lparr>noise = \<lparr>internal = idle\<lparr>to_output := True\<rparr>, type = JStr ''white''\<rparr>\<rparr>"






lemmas sim_defs =
  sim_engine_def sim_Player_start_def sim_loop_point_set_def sim_type_set_def idle_def
  empty_buffer_def gong_def loading_sound_def loaded_sound_def started_sound_def
  playing_sound_def paused_sound_def restarted_sound_def white_noise_def fft32_def
  ToneAudioBuffer_loaded_def ToneAudioBuffer_length_def ToneAudioBuffer_duration_def
  ToneAudioBuffer_sampleRate_def ToneAudioBuffer_numberOfChannels_def
  Player_set_playbackRate_def Player_set_loopStart_def Player_set_loopEnd_def
  Noise_set_type_def

section \<open>Results\<close>

lemma loading_sound_constructed:
  "SoundFile_constructor sim_engine (JStr ''gong_1.mp3'') = Inr loading_sound"
  by (simp add: SoundFile_constructor_def sim_defs)

lemma SoundFile_stop_playing:
  "SoundFile_stop E sf = Inr sf' \<Longrightarrow> playing sf' = playing sf"
  by (auto simp: SoundFile_stop_def split: sum.splits)

lemma SoundFile_start_playing:
  "SoundFile_start E sf = Inr sf' \<Longrightarrow> playing sf' \<and> rate sf' = rate sf"
  by (auto simp: SoundFile_start_def split: sum.splits)

text \<open>
  C1. Whenever \<open>start()\<close> returns, \<open>isPlaying()\<close> is true. Whenever a following \<open>stop()\<close>
  returns, \<open>isPlaying()\<close> is still true, whatever the engine did to the player:
  \<open>stop()\<close> never writes the \<open>playing\<close> field.
\<close>

theorem SoundFile_isPlaying_after_stop:
  "SoundFile_start E sf = Inr sf1 \<Longrightarrow> SoundFile_stop E sf1 = Inr sf2 \<Longrightarrow>
   SoundFile_isPlaying sf1 \<and> SoundFile_isPlaying sf2"
  using SoundFile_start_playing [of E sf sf1] SoundFile_stop_playing [of E sf1 sf2]
  by (simp add: SoundFile_isPlaying_def)

lemma sim_start_loaded: "SoundFile_start sim_engine loaded_sound = Inr started_sound"
  by (simp add: SoundFile_start_def sim_defs)

lemma sim_stop_started: "SoundFile_stop sim_engine started_sound = Inr (loaded_sound\<lparr>playing := True\<rparr>)"
  by (simp add: SoundFile_stop_def sim_defs)

theorem SoundFile_isPlaying_after_stop_witness:
  "SoundFile_start sim_engine loaded_sound = Inr started_sound \<and>
   SoundFile_stop sim_engine started_sound = Inr (loaded_sound\<lparr>playing := True\<rparr>) \<and>
   SoundFile_isPlaying started_sound \<and>
   SoundFile_isPlaying (loaded_sound\<lparr>playing := True\<rparr>) \<and>
   \<not> started (internal (soundfile (loaded_sound\<lparr>playing := True\<rparr>)))"
  using SoundFile_isPlaying_after_stop [OF sim_start_loaded sim_stop_started]
    sim_start_loaded sim_stop_started
  by (simp add: loaded_sound_def loading_sound_def idle_def)







text \<open>
  C4. While the player's buffer object holds no decoded audio, none of the four queries
  raises and none returns \<open>undefined\<close>: the buffer object is there, so the guards of
  \<open>sampleRate()\<close>, \<open>channels()\<close> and \<open>frames()\<close> pass, and each query returns what the
  buffer object reads: 0 for \<open>duration()\<close>, \<open>channels()\<close> and \<open>frames()\<close>, the audio
  context's sample rate for \<open>sampleRate()\<close>.
\<close>

theorem SoundFile_queries_while_loading:
  "buffer (soundfile sf) = Some b \<Longrightarrow> decoded b = None \<Longrightarrow>
   SoundFile_duration sf = Inr (JNum 0) \<and>
   SoundFile_sampleRate sf = Inr (JNum (context_sampleRate b)) \<and>
   SoundFile_channels sf = Inr (JNum 0) \<and>
   SoundFile_frames sf = Inr (JNum 0)"
  by (simp add: SoundFile_duration_def SoundFile_sampleRate_def SoundFile_channels_def
      SoundFile_frames_def ToneAudioBuffer_duration_def ToneAudioBuffer_sampleRate_def
      ToneAudioBuffer_numberOfChannels_def ToneAudioBuffer_length_def)

lemma loading_sound_buffer: "buffer (soundfile loading_sound) = Some empty_buffer"
  by (simp add: loading_sound_def)

lemma empty_buffer_decoded: "decoded empty_buffer = None"
  by (simp add: empty_buffer_def)

theorem SoundFile_queries_while_loading_witness:
  "SoundFile_constructor sim_engine (JStr ''gong_1.mp3'') = Inr loading_sound \<and>
   buffer (soundfile loading_sound) = Some empty_buffer \<and>
   decoded empty_buffer = None \<and>
   SoundFile_duration loading_sound = Inr (JNum 0) \<and>
   SoundFile_sampleRate loading_sound = Inr (JNum 44100) \<and>
   SoundFile_channels loading_sound = Inr (JNum 0) \<and>
   SoundFile_frames loading_sound = Inr (JNum 0)"
  using SoundFile_queries_while_loading [OF loading_sound_buffer empty_buffer_decoded]
    loading_sound_buffer empty_buffer_decoded loading_sound_constructed
  by (simp add: empty_buffer_def)

text \<open>
  C5. From the same state and on the same engine, \<open>play()\<close> returns what \<open>start()\<close>
  returns: the same exception, or the same new state. In that state the playing flag is
  set, the stored rate is unchanged, and the player is what the engine's \<open>start()\<close> made
  of the old player after the stored rate was written to its \<open>playbackRate\<close>.
\<close>

theorem SoundFile_play_start_equivalent:
  "snd (SoundFile_play E sf) = SoundFile_start E sf \<and>
   (\<forall>sf'. SoundFile_start E sf = Inr sf' \<longrightarrow>
      SoundFile_isPlaying sf' \<and> rate sf' = rate sf \<and>
      (\<exists>p. Player_set_playbackRate E (rate sf) (soundfile sf) = Inr p \<and>
           playbackRate p = rate sf \<and>
           tone_Player_start E p = Inr (soundfile sf')))"
  by (auto simp: SoundFile_play_def SoundFile_start_def SoundFile_isPlaying_def
      Player_set_playbackRate_def split: sum.splits)

theorem SoundFile_play_start_equivalent_witness:
  "snd (SoundFile_play sim_engine loaded_sound) = Inr started_sound \<and>
   SoundFile_start sim_engine loaded_sound = Inr started_sound \<and>
   SoundFile_isPlaying started_sound \<and>
   rate started_sound = rate loaded_sound \<and>
   Player_set_playbackRate sim_engine (rate loaded_sound) (soundfile loaded_sound)
     = Inr (soundfile loaded_sound) \<and>
   tone_Player_start sim_engine (soundfile loaded_sound) = Inr (soundfile started_sound)"
  using SoundFile_play_start_equivalent [of sim_engine loaded_sound] sim_start_loaded
  by (simp add: sim_defs)

text \<open>
  C6. When \<open>pause()\<close> returns, the engine has accepted 0 as the player's
  \<open>playbackRate\<close>, which reads 0, the playing flag is false and the stored rate is
  unchanged. A following \<open>start()\<close> that returns has written the stored rate back to
  \<open>playbackRate\<close> and then called the engine's \<open>start()\<close>, without an offset, on that
  player; its result is the new player. Where playback then begins is the engine's:
  the wrapper passes no position.
\<close>

theorem SoundFile_start_after_pause:
  "SoundFile_pause E sf = Inr sf1 \<Longrightarrow> SoundFile_start E sf1 = Inr sf2 \<Longrightarrow>
   Player_set_playbackRate E 0 (soundfile sf) = Inr (soundfile sf1) \<and>
   playbackRate (soundfile sf1) = 0 \<and>
   \<not> SoundFile_isPlaying sf1 \<and>
   rate sf1 = rate sf \<and>
   (\<exists>p. Player_set_playbackRate E (rate sf) (soundfile sf1) = Inr p \<and>
        playbackRate p = rate sf \<and>
        tone_Player_start E p = Inr (soundfile sf2)) \<and>
   SoundFile_isPlaying sf2 \<and>
   rate sf2 = rate sf"
  by (auto simp: SoundFile_pause_def SoundFile_start_def SoundFile_isPlaying_def
      Player_set_playbackRate_def split: sum.splits)

lemma sim_pause_playing: "SoundFile_pause sim_engine playing_sound = Inr paused_sound"
  by (simp add: SoundFile_pause_def sim_defs)

lemma sim_start_paused: "SoundFile_start sim_engine paused_sound = Inr restarted_sound"
  by (simp add: SoundFile_start_def sim_defs)

theorem SoundFile_start_after_pause_witness:
  "SoundFile_pause sim_engine playing_sound = Inr paused_sound \<and>
   SoundFile_start sim_engine paused_sound = Inr restarted_sound \<and>
   rate playing_sound = 2 \<and>
   position (internal (soundfile playing_sound)) = 3 \<and>
   playbackRate (soundfile paused_sound) = 0 \<and>
   \<not> SoundFile_isPlaying paused_sound \<and>
   rate paused_sound = 2 \<and>
   position (internal (soundfile paused_sound)) = 3 \<and>
   SoundFile_isPlaying restarted_sound \<and>
   playbackRate (soundfile restarted_sound) = 2 \<and>
   position (internal (soundfile restarted_sound)) = 0"
  using SoundFile_start_after_pause [OF sim_pause_playing sim_start_paused]
    sim_pause_playing sim_start_paused
  by (simp add: sim_defs SoundFile_isPlaying_def)




text \<open>
  C9. On every FFT instance the name \<open>waveform\<close> resolves to the instance's own
  property, the engine object the constructor stored, and not to the method of the class
  body; calling it raises a \<open>TypeError\<close>, and nothing is written to the console.
\<close>

theorem FFT_waveform_call_raises:
  "FFT_get f ''waveform'' = Some (Engine_object (waveform f)) \<and>
   FFT_call E f ''waveform'' = ([], Inl TypeError)"
  by (simp add: FFT_call_def FFT_get_def FFT_own_def)

lemma sim_fft32: "FFT_constructor sim_engine (JNum 32) = Inr fft32"
  by (simp add: FFT_constructor_def sim_engine_def fft32_def idle_def)

theorem FFT_waveform_call_raises_witness:
  "FFT_constructor sim_engine (JNum 32) = Inr fft32 \<and>
   FFT_get fft32 ''waveform'' = Some (Engine_object idle) \<and>
   FFT_call sim_engine fft32 ''waveform'' = ([], Inl TypeError)"
  using FFT_waveform_call_raises [of fft32 sim_engine] sim_fft32
  by (simp add: fft32_def)

text \<open>
  C10. A Noise constructed with \<open>undefined\<close> is a Noise constructed with \<open>"white"\<close>.
  Every other argument of the constructor, and every argument of \<open>type(t)\<close>, reaches
  the engine's \<open>type\<close> accessor as it is: when the engine accepts the value, the call
  returns and the node's \<open>type\<close> reads that value; when the call of \<open>type(t)\<close> raises,
  it is the engine's accessor that raised, and likewise for the constructor once the
  node is made and routed to the output. Neither looks at the value itself.
\<close>

theorem Noise_type_forwarded:
  "Noise_constructor E JUndefined = Noise_constructor E (JStr ''white'') \<and>
   (\<forall>x. tone_type_set E t (noise m) = Inr x \<longrightarrow>
      Noise_type E t m = Inr (m\<lparr>noise := (noise m)\<lparr>internal := x, type := t\<rparr>\<rparr>)) \<and>
   (\<forall>e. Noise_type E t m = Inl e \<longrightarrow> tone_type_set E t (noise m) = Inl e) \<and>
   (\<forall>n0 s. t \<noteq> JUndefined \<longrightarrow> tone_Noise E = Inr n0 \<longrightarrow>
      tone_toDestination E (internal n0) = Inr s \<longrightarrow>
      (\<forall>x. tone_type_set E t (n0\<lparr>internal := s\<rparr>) = Inr x \<longrightarrow>
         Noise_constructor E t = Inr \<lparr>noise = n0\<lparr>internal := x, type := t\<rparr>\<rparr>) \<and>
      (\<forall>e. Noise_constructor E t = Inl e \<longrightarrow>
         tone_type_set E t (n0\<lparr>internal := s\<rparr>) = Inl e))"
  by (auto simp: Noise_constructor_def Noise_type_def Noise_set_type_def split: sum.splits)

lemma sim_white_noise: "Noise_constructor sim_engine JUndefined = Inr white_noise"
  by (simp add: Noise_constructor_def sim_defs)

theorem Noise_type_forwarded_witness:
  "Noise_constructor sim_engine JUndefined = Inr white_noise \<and>
   Noise_constructor sim_engine (JStr ''white'') = Inr white_noise \<and>
   tone_type_set sim_engine (JStr ''pink'') (noise white_noise) = Inr (internal (noise white_noise)) \<and>
   Noise_type sim_engine (JStr ''pink'') white_noise
     = Inr (white_noise\<lparr>noise := (noise white_noise)\<lparr>type := JStr ''pink''\<rparr>\<rparr>) \<and>
   Noise_type sim_engine (JStr ''purple'') white_noise = Inl (EngineError ''Noise: invalid type'') \<and>
   tone_type_set sim_engine (JStr ''purple'') (noise white_noise)
     = Inl (EngineError ''Noise: invalid type'')"
  using Noise_type_forwarded [of sim_engine "JStr ''pink''" white_noise]
    Noise_type_forwarded [of sim_engine "JStr ''purple''" white_noise]
    sim_white_noise
  by (simp add: sim_defs Noise_type_def)

section \<open>Calls that are passed on to the engine\<close>

text \<open>
  \<open>analyze()\<close> returns what the engine's analyser returns. The analyser was made in the
  constructor from the given size, 32 when none was given, with \<open>normalRange\<close> set; no
  method of the class replaces it.
\<close>

lemma FFT_constructor_default: "FFT_constructor E JUndefined = FFT_constructor E (JNum 32)"
  by (simp add: FFT_constructor_def)

lemma FFT_constructor_analyzer:
  "FFT_constructor E n = Inr f \<Longrightarrow>
   fftSize f = (if n = JUndefined then JNum 32 else n) \<and>
   tone_FFT E (fftSize f) True = Inr (analyzer f)"
  by (auto simp: FFT_constructor_def Let_def split: sum.splits)

lemma FFT_analyze_engine:
  "FFT_call E f ''analyze'' =
     ([], (case tone_FFT_getValue E (analyzer f) of Inl e \<Rightarrow> Inl e | Inr vs \<Rightarrow> Inr (Returns_values vs)))"
  by (simp add: FFT_call_def FFT_get_def FFT_own_def FFT_prototype_def FFT_analyze_def)

text \<open>
  \<open>disconnect()\<close> of a SoundFile or a Noise is one call of the engine's \<open>disconnect\<close>
  on the node, with \<open>Tone.Context.destination\<close> as its argument. The FFT class defines
  neither \<open>connect\<close> nor \<open>disconnect\<close>.
\<close>

lemma SoundFile_disconnect_engine:
  "SoundFile_disconnect E sf = Inr sf' \<Longrightarrow>
   tone_disconnect E (internal (soundfile sf)) Context_destination = Inr (internal (soundfile sf')) \<and>
   sf' = sf\<lparr>soundfile := (soundfile sf)\<lparr>internal := internal (soundfile sf')\<rparr>\<rparr>"
  by (auto simp: SoundFile_disconnect_def split: sum.splits)

lemma Noise_disconnect_engine:
  "Noise_disconnect E n = Inr n' \<Longrightarrow>
   tone_disconnect E (internal (noise n)) Context_destination = Inr (internal (noise n')) \<and>
   n' = n\<lparr>noise := (noise n)\<lparr>internal := internal (noise n')\<rparr>\<rparr>"
  by (auto simp: Noise_disconnect_def split: sum.splits)

lemma FFT_disconnect_absent:
  "FFT_get f ''disconnect'' = None \<and> FFT_call E f ''disconnect'' = ([], Inl TypeError)"
  by (simp add: FFT_call_def FFT_get_def FFT_own_def FFT_prototype_def)

text \<open>
  \<open>amp(value)\<close> stores whatever \<open>Tone.gainToDb\<close> returns for the value, with no case
  of its own for 0.
\<close>

lemma SoundFile_amp_engine:
  "SoundFile_amp gainToDb v sf = Inr sf' \<Longrightarrow> gainToDb v = Inr (volume (soundfile sf'))"
  by (auto simp: SoundFile_amp_def split: sum.splits)

end
